theory Spec2Isabelle
  imports Complex_Main
begin

section \<open>JavaScript values and the runtime operations the models use\<close>

text \<open>
  The record-access modules are untyped JavaScript: a criterion or a payload entry can hold
  a string (as a query string delivers it), a number (as the tests pass it), a boolean,
  \<open>null\<close> or nothing at all. The numbers a criterion or a bind value holds are
  modelled as the integers, with \<open>NaN\<close> apart (\<open>parseInt\<close> returns it); the rounding
  of a double beyond its 53 bits is outside the model. Strings are lists of 8-bit
  characters, ordered by character code; text beyond that range is outside the model.
\<close>

datatype jsval = JUndefined | JNull | JBool bool | JNum int | JNaN | JStr string

text \<open>
  An object is the list of its own enumerable properties in iteration order (the order of
  \<open>for ... in\<close> and of \<open>Object.keys\<close>). Reading a property that is not there gives
  \<open>undefined\<close>.
\<close>

type_synonym obj = "(string \<times> jsval) list"

definition get_prop :: "obj \<Rightarrow> string \<Rightarrow> jsval" where
  "get_prop ob k = (case map_of ob k of None \<Rightarrow> JUndefined | Some v \<Rightarrow> v)"

definition keys :: "obj \<Rightarrow> string list" where
  "keys ob = map fst ob"

text \<open>ToBoolean: what \<open>if (v)\<close> and \<open>a && b\<close> test.\<close>

fun truthy :: "jsval \<Rightarrow> bool" where
  "truthy JUndefined = False"
| "truthy JNull = False"
| "truthy (JBool b) = b"
| "truthy (JNum n) = (n \<noteq> 0)"
| "truthy JNaN = False"
| "truthy (JStr s) = (s \<noteq> [])"

text \<open>Decimal rendering of a number, as a template literal interpolates it.\<close>

definition digit_char :: "nat \<Rightarrow> char" where
  "digit_char d = ''0123456789'' ! d"

fun show_nat :: "nat \<Rightarrow> string" where
  "show_nat n =
     (if n < 10 then [digit_char n] else show_nat (n div 10) @ [digit_char (n mod 10)])"

declare show_nat.simps [simp del]

definition show_int :: "int \<Rightarrow> string" where
  "show_int i = (if i < 0 then CHR ''-'' # show_nat (nat (- i)) else show_nat (nat i))"

text \<open>ToString, used by template literals and by \<open>parseInt\<close> on its argument.\<close>

fun to_string :: "jsval \<Rightarrow> string" where
  "to_string JUndefined = ''undefined''"
| "to_string JNull = ''null''"
| "to_string (JBool b) = (if b then ''true'' else ''false'')"
| "to_string (JNum n) = show_int n"
| "to_string JNaN = ''NaN''"
| "to_string (JStr s) = s"

text \<open>
  \<open>parseInt(v)\<close> with no radix: ToString, skip leading white space, an optional sign, a
  \<open>0x\<close> prefix selects radix 16, then the longest run of digits of the radix; no digit
  at all gives \<open>NaN\<close>.
\<close>

definition is_white :: "char \<Rightarrow> bool" where
  "is_white c =
     (c \<in> set [CHR '' '', CHR 0x09, CHR 0x0A, CHR 0x0B, CHR 0x0C, CHR 0x0D, CHR 0xA0])"

definition digit_of :: "char \<Rightarrow> nat option" where
  "digit_of c =
     (let k = (of_char c :: nat)
      in if 48 \<le> k \<and> k \<le> 57 then Some (k - 48)
         else if 97 \<le> k \<and> k \<le> 102 then Some (k - 87)
         else if 65 \<le> k \<and> k \<le> 70 then Some (k - 55)
         else None)"

definition is_digit :: "nat \<Rightarrow> char \<Rightarrow> bool" where
  "is_digit r c = (case digit_of c of None \<Rightarrow> False | Some d \<Rightarrow> d < r)"

fun digits_value :: "nat \<Rightarrow> nat \<Rightarrow> string \<Rightarrow> nat" where
  "digits_value r acc [] = acc"
| "digits_value r acc (c # cs) =
     digits_value r (acc * r + (case digit_of c of None \<Rightarrow> 0 | Some d \<Rightarrow> d)) cs"

definition has_sign :: "string \<Rightarrow> bool" where
  "has_sign s = (case s of [] \<Rightarrow> False | c # _ \<Rightarrow> c = CHR ''+'' \<or> c = CHR ''-'')"

definition is_negative :: "string \<Rightarrow> bool" where
  "is_negative s = (case s of [] \<Rightarrow> False | c # _ \<Rightarrow> c = CHR ''-'')"

definition signed :: "bool \<Rightarrow> nat \<Rightarrow> jsval" where
  "signed neg n = JNum (if neg then - int n else int n)"

definition parseInt_string :: "string \<Rightarrow> jsval" where
  "parseInt_string s =
     (let s1 = dropWhile is_white s;
          s2 = (if has_sign s1 then tl s1 else s1);
          hex = (take 2 s2 = ''0x'' \<or> take 2 s2 = ''0X'');
          r = (if hex then 16 else 10);
          s3 = (if hex then drop 2 s2 else s2);
          ds = takeWhile (is_digit r) s3
      in if ds = [] then JNaN else signed (is_negative s1) (digits_value r 0 ds))"

definition parseInt :: "jsval \<Rightarrow> jsval" where
  "parseInt v = parseInt_string (to_string v)"

text \<open>
  ToNumber, which the comparison \<open>a > b\<close> applies when its operands are not both
  strings. Its results are taken in the rationals with the two infinities and \<open>NaN\<close>,
  so that every numeric literal a string can hold has its exact value. On a string it
  reads a whole literal between white space: the empty string is 0; an unsigned integer
  with a \<open>0x\<close>, \<open>0o\<close> or \<open>0b\<close> prefix; or an optional sign before \<open>Infinity\<close> or a
  decimal literal (digits, an optional point and fraction, an optional exponent, with a
  digit on at least one side of the point). Anything else is \<open>NaN\<close>.
\<close>

datatype number = Finite rat | PosInfinity | NegInfinity | NotANumber

fun negate :: "number \<Rightarrow> number" where
  "negate (Finite q) = Finite (- q)"
| "negate PosInfinity = NegInfinity"
| "negate NegInfinity = PosInfinity"
| "negate NotANumber = NotANumber"

definition trim :: "string \<Rightarrow> string" where
  "trim s = rev (dropWhile is_white (rev (dropWhile is_white s)))"

definition all_digits :: "nat \<Rightarrow> string \<Rightarrow> number" where
  "all_digits r s =
     (if s \<noteq> [] \<and> list_all (is_digit r) s then Finite (of_nat (digits_value r 0 s))
      else NotANumber)"

definition scale10 :: "nat \<Rightarrow> int \<Rightarrow> rat" where
  "scale10 m e = (if 0 \<le> e then of_nat m * 10 ^ nat e else of_nat m / 10 ^ nat (- e))"

text \<open>What follows the mantissa: nothing, or \<open>e\<close> or \<open>E\<close> and a signed run of digits.\<close>

definition exponent_part :: "string \<Rightarrow> int option" where
  "exponent_part s =
     (case s of
        [] \<Rightarrow> Some 0
      | c # r \<Rightarrow>
          if c = CHR ''e'' \<or> c = CHR ''E'' then
            (let ds = (if has_sign r then tl r else r)
             in if ds \<noteq> [] \<and> list_all (is_digit 10) ds
                then Some (if is_negative r then - int (digits_value 10 0 ds)
                           else int (digits_value 10 0 ds))
                else None)
          else None)"

definition decimal_literal :: "string \<Rightarrow> number" where
  "decimal_literal s =
     (if s = ''Infinity'' then PosInfinity
      else
        let ip = takeWhile (is_digit 10) s;
            r1 = dropWhile (is_digit 10) s;
            dot = (case r1 of [] \<Rightarrow> False | c # _ \<Rightarrow> c = CHR ''.'');
            fp = (if dot then takeWhile (is_digit 10) (tl r1) else []);
            r2 = (if dot then dropWhile (is_digit 10) (tl r1) else r1)
        in if ip = [] \<and> fp = [] then NotANumber
           else case exponent_part r2 of
                  None \<Rightarrow> NotANumber
                | Some e \<Rightarrow> Finite (scale10 (digits_value 10 0 (ip @ fp)) (e - int (length fp))))"

definition to_number_string :: "string \<Rightarrow> number" where
  "to_number_string s =
     (let t = trim s
      in if t = [] then Finite 0
         else if take 2 t = ''0x'' \<or> take 2 t = ''0X'' then all_digits 16 (drop 2 t)
         else if take 2 t = ''0o'' \<or> take 2 t = ''0O'' then all_digits 8 (drop 2 t)
         else if take 2 t = ''0b'' \<or> take 2 t = ''0B'' then all_digits 2 (drop 2 t)
         else let v = decimal_literal (if has_sign t then tl t else t)
              in if is_negative t then negate v else v)"

fun to_number :: "jsval \<Rightarrow> number" where
  "to_number JUndefined = NotANumber"
| "to_number JNull = Finite 0"
| "to_number (JBool b) = Finite (if b then 1 else 0)"
| "to_number (JNum n) = Finite (of_int n)"
| "to_number JNaN = NotANumber"
| "to_number (JStr s) = to_number_string s"

text \<open>The order of strings: by code units, a proper prefix first.\<close>

fun str_lt :: "string \<Rightarrow> string \<Rightarrow> bool" where
  "str_lt [] [] = False"
| "str_lt [] (y # ys) = True"
| "str_lt (x # xs) [] = False"
| "str_lt (x # xs) (y # ys) =
     (if (of_char x :: nat) < of_char y then True
      else if (of_char y :: nat) < of_char x then False
      else str_lt xs ys)"

text \<open>
  \<open>a > b\<close>: two strings are compared as strings; otherwise both sides are converted to
  numbers, and a comparison with \<open>NaN\<close> is false.
\<close>

fun num_lt :: "number \<Rightarrow> number \<Rightarrow> bool" where
  "num_lt (Finite a) (Finite b) = (a < b)"
| "num_lt (Finite a) PosInfinity = True"
| "num_lt NegInfinity (Finite b) = True"
| "num_lt NegInfinity PosInfinity = True"
| "num_lt _ _ = False"

fun js_gt :: "jsval \<Rightarrow> jsval \<Rightarrow> bool" where
  "js_gt (JStr a) (JStr b) = str_lt b a"
| "js_gt a b = num_lt (to_number b) (to_number a)"

text \<open>\<open>Array.prototype.indexOf\<close> and \<open>Array.prototype.join\<close>.\<close>

fun indexOf_from :: "int \<Rightarrow> 'a list \<Rightarrow> 'a \<Rightarrow> int" where
  "indexOf_from i [] x = - 1"
| "indexOf_from i (y # ys) x = (if y = x then i else indexOf_from (i + 1) ys x)"

definition indexOf :: "'a list \<Rightarrow> 'a \<Rightarrow> int" where
  "indexOf xs x = indexOf_from 0 xs x"

fun join :: "string list \<Rightarrow> string \<Rightarrow> string" where
  "join [] sep = []"
| "join [x] sep = x"
| "join (x # y # ys) sep = x @ sep @ join (y # ys) sep"

section \<open>Errors\<close>

text \<open>The two error classes of \<open>expressError\<close> that the models throw, with their message.\<close>

datatype error = BadRequestError string | NotFoundError string

fun is_BadRequest :: "error + 'a \<Rightarrow> bool" where
  "is_BadRequest (Inl (BadRequestError m)) = True"
| "is_BadRequest _ = False"

text \<open>
  What a filter builder returns (\<open>values_of\<close> is the field \<open>values\<close> of the source),
  and the query text and binds that a model hands to the database.
\<close>

record clause =
  statement :: string
  values_of :: "jsval list"

record query =
  querySql :: string
  binds :: "jsval list"

section \<open>models/company.js\<close>

text \<open>
  The loop of \<open>checkCriteria\<close> over the keys of \<open>params\<close>: the first key that is not
  in \<open>criteria\<close> throws.
\<close>

fun checkCriteria_keys :: "string list \<Rightarrow> string list \<Rightarrow> error + unit" where
  "checkCriteria_keys criteria [] = Inr ()"
| "checkCriteria_keys criteria (key # ks) =
     (if indexOf criteria key < 0 then Inl (BadRequestError ''Invalid search criteria.'')
      else checkCriteria_keys criteria ks)"

definition Company_criteria :: "string list" where
  "Company_criteria = [''name'', ''minEmployees'', ''maxEmployees'']"

definition Company_checkCriteria :: "obj \<Rightarrow> error + unit" where
  "Company_checkCriteria params =
     (let minEmployees = get_prop params ''minEmployees'';
          maxEmployees = get_prop params ''maxEmployees''
      in case checkCriteria_keys Company_criteria (keys params) of
           Inl e \<Rightarrow> Inl e
         | Inr _ \<Rightarrow>
             if truthy minEmployees \<and> truthy maxEmployees then
               if js_gt minEmployees maxEmployees
               then Inl (BadRequestError ''Max employees must be greater than min employees'')
               else Inr ()
             else Inr ())"

text \<open>
  \<open>createSearchSqlStatement\<close> pushes onto two arrays; the model threads the pair
  through the three steps in the order of the source.
\<close>

type_synonym builder = "string list \<times> jsval list"

definition push_clause :: "string \<Rightarrow> jsval \<Rightarrow> builder \<Rightarrow> builder" where
  "push_clause text v b =
     (case b of (sqlStatement, sqlValues) \<Rightarrow>
        (sqlStatement @ [text @ ''$'' @ show_nat (length sqlStatement + 1)], sqlValues @ [v]))"

definition finish :: "builder \<Rightarrow> clause" where
  "finish b = (case b of (sqlStatement, sqlValues) \<Rightarrow>
     \<lparr>statement = join sqlStatement '' AND '', values_of = sqlValues\<rparr>)"

definition Company_createSearchSqlStatement :: "obj \<Rightarrow> clause" where
  "Company_createSearchSqlStatement params =
     (let name = get_prop params ''name'';
          minEmployees = get_prop params ''minEmployees'';
          maxEmployees = get_prop params ''maxEmployees'';
          b0 = ([], []);
          b1 = (if truthy minEmployees
                then push_clause ''num_employees >= '' (parseInt minEmployees) b0 else b0);
          b2 = (if truthy maxEmployees
                then push_clause ''num_employees <= '' (parseInt maxEmployees) b1 else b1);
          b3 = (if truthy name
                then push_clause ''name ILIKE '' (JStr (''%'' @ to_string name @ ''%'')) b2 else b2)
      in finish b3)"

text \<open>
  \<open>Company.filter\<close> up to its call of the database: either the error of the check, or
  the query text, with the statement interpolated after \<open>WHERE\<close>, and its binds.
\<close>

definition Company_filter_prefix :: string where
  \<open>Company_filter_prefix =
     ''SELECT handle,\<newline>'' @
     ''                             name,\<newline>'' @
     ''                             description,\<newline>'' @
     ''                             num_employees AS "numEmployees",\<newline>'' @
     ''                             logo_url AS "logoUrl"\<newline>'' @
     ''                        FROM companies\<newline>'' @
     ''                        WHERE ''\<close>

definition Company_filter_suffix :: string where
  "Company_filter_suffix = ''\<newline>                      ''"

definition Company_filter :: "obj \<Rightarrow> error + query" where
  "Company_filter params =
     (case Company_checkCriteria params of
        Inl e \<Rightarrow> Inl e
      | Inr _ \<Rightarrow>
          (let c = Company_createSearchSqlStatement params
           in Inr \<lparr>querySql = Company_filter_prefix @ statement c @ Company_filter_suffix,
                   binds = values_of c\<rparr>))"

section \<open>models/job.js\<close>

definition Job_criteria :: "string list" where
  "Job_criteria = [''title'', ''minSalary'', ''hasEquity'']"

definition Job_checkCriteria :: "obj \<Rightarrow> error + unit" where
  "Job_checkCriteria params =
     (case checkCriteria_keys Job_criteria (keys params) of
        Inl e \<Rightarrow> Inl e
      | Inr _ \<Rightarrow>
          (let hasEquity = get_prop params ''hasEquity''
           in if truthy hasEquity then
                if hasEquity \<noteq> JStr ''true'' \<and> hasEquity \<noteq> JStr ''false''
                then Inl (BadRequestError ''Invalid value for has equity'')
                else Inr ()
              else Inr ()))"

definition Job_createSearchSqlStatement :: "obj \<Rightarrow> clause" where
  "Job_createSearchSqlStatement params =
     (let title = get_prop params ''title'';
          minSalary = get_prop params ''minSalary'';
          hasEquity = get_prop params ''hasEquity'';
          b0 = ([], []);
          b1 = (if truthy title
                then push_clause ''title ILIKE '' (JStr (''%'' @ to_string title @ ''%'')) b0 else b0);
          b2 = (if truthy minSalary
                then push_clause ''salary >= '' (parseInt minSalary) b1 else b1);
          b3 = (if hasEquity = JStr ''true''
                then push_clause ''equity > '' (JStr ''0'') b2 else b2)
      in finish b3)"

definition Job_filter_prefix :: string where
  \<open>Job_filter_prefix =
     ''SELECT id,\<newline>'' @
     ''                             title,\<newline>'' @
     ''                             salary,\<newline>'' @
     ''                             equity,\<newline>'' @
     ''                             company_handle AS "companyHandle"\<newline>'' @
     ''                      FROM jobs\<newline>'' @
     ''                      WHERE ''\<close>

definition Job_filter :: "obj \<Rightarrow> error + query" where
  "Job_filter params =
     (case Job_checkCriteria params of
        Inl e \<Rightarrow> Inl e
      | Inr _ \<Rightarrow>
          (let c = Job_createSearchSqlStatement params
           in Inr \<lparr>querySql = Job_filter_prefix @ statement c, binds = values_of c\<rparr>))"

subsection \<open>The earlier copy of the job model\<close>

text \<open>
  The sources hold a second, shorter copy of the job model, placed before the one above.
  It has no \<open>module.exports\<close> and its \<open>filter\<close> sends no query. Its two filter
  helpers differ from the later copy in one operator each: the check joins the two tests
  on \<open>hasEquity\<close> with \<open>||\<close>, and the builder emits \<open>equity >=\<close>.
\<close>

definition Job_checkCriteria_earlier :: "obj \<Rightarrow> error + unit" where
  "Job_checkCriteria_earlier params =
     (case checkCriteria_keys Job_criteria (keys params) of
        Inl e \<Rightarrow> Inl e
      | Inr _ \<Rightarrow>
          (let hasEquity = get_prop params ''hasEquity''
           in if truthy hasEquity then
                if hasEquity \<noteq> JStr ''true'' \<or> hasEquity \<noteq> JStr ''false''
                then Inl (BadRequestError ''Invalid value for has equity'')
                else Inr ()
              else Inr ()))"

definition Job_createSearchSqlStatement_earlier :: "obj \<Rightarrow> clause" where
  "Job_createSearchSqlStatement_earlier params =
     (let title = get_prop params ''title'';
          minSalary = get_prop params ''minSalary'';
          hasEquity = get_prop params ''hasEquity'';
          b0 = ([], []);
          b1 = (if truthy title
                then push_clause ''title ILIKE '' (JStr (''%'' @ to_string title @ ''%'')) b0 else b0);
          b2 = (if truthy minSalary
                then push_clause ''salary >= '' (parseInt minSalary) b1 else b1);
          b3 = (if hasEquity = JStr ''true''
                then push_clause ''equity >= '' (JStr ''0'') b2 else b2)
      in finish b3)"

section \<open>models/user.js: updating an application\<close>

text \<open>
  The \<open>applications\<close> table is a list of rows in the order the database lists them. The
  two statements of \<open>updateJobApplication\<close> are modelled by what they say: the
  \<open>SELECT\<close> keeps the rows whose \<open>username\<close> and \<open>job_id\<close> equal the two binds; the
  \<open>UPDATE\<close> has no \<open>WHERE\<close>, so it rewrites and returns every row. The function gives
  back \<open>rows[0]\<close>, which is \<open>undefined\<close> (here \<open>None\<close>) on an empty result.
\<close>

record application =
  username :: string
  job_id :: int
  current_state :: string

type_synonym applications = "application list"

definition select_application :: "applications \<Rightarrow> string \<Rightarrow> int \<Rightarrow> application list" where
  "select_application db u j = filter (\<lambda>r. username r = u \<and> job_id r = j) db"

definition update_current_state :: "applications \<Rightarrow> string \<Rightarrow> applications" where
  "update_current_state db newState = map (\<lambda>r. r\<lparr>current_state := newState\<rparr>) db"

definition User_updateJobApplication ::
  "applications \<Rightarrow> string \<Rightarrow> int \<Rightarrow> string \<Rightarrow> (error + application option) \<times> applications" where
  "User_updateJobApplication db u jobId newState =
     (case select_application db u jobId of
        [] \<Rightarrow> (Inl (NotFoundError ''Application not found''), db)
      | application # _ \<Rightarrow>
          (let db' = update_current_state db newState;
               updateRes = db'
           in (Inr (case updateRes of [] \<Rightarrow> None | updatedApp # _ \<Rightarrow> Some updatedApp), db')))"

section \<open>helpers/sql.js\<close>

text \<open>
  Modelled from the spec: \<open>sqlForPartialUpdate\<close> of helpers/sql.js is not among the
  sources; only its test and its callers are. The spec's partial-update builder fails on
  an empty payload; otherwise it walks the payload in iteration order, resolves each key
  through the field map with the key itself as fallback when the map has no entry, emits
  the fragment \<open>"column"=$i\<close> with \<open>i\<close> counting from 1, joins the fragments with a comma
  and a space (the form the test expects), and returns the values in the same order. The
  spec and the test give the class of the error and no message; the message is left empty.
\<close>

record update_clause =
  setCols :: string
  update_values :: "jsval list"

definition column_of :: "(string \<rightharpoonup> string) \<Rightarrow> string \<Rightarrow> string" where
  "column_of jsToSql colName = (case jsToSql colName of None \<Rightarrow> colName | Some c \<Rightarrow> c)"

fun cols_from :: "nat \<Rightarrow> (string \<rightharpoonup> string) \<Rightarrow> string list \<Rightarrow> string list" where
  \<open>cols_from idx jsToSql [] = []\<close>
| \<open>cols_from idx jsToSql (colName # ks) =
     (''"'' @ column_of jsToSql colName @ ''"=$'' @ show_nat (idx + 1))
       # cols_from (idx + 1) jsToSql ks\<close>

definition sqlForPartialUpdate :: "obj \<Rightarrow> (string \<rightharpoonup> string) \<Rightarrow> error + update_clause" where
  "sqlForPartialUpdate dataToUpdate jsToSql =
     (if keys dataToUpdate = [] then Inl (BadRequestError [])
      else Inr \<lparr>setCols = join (cols_from 0 jsToSql (keys dataToUpdate)) '', '',
                update_values = map snd dataToUpdate\<rparr>)"

section \<open>The clause the specification describes\<close>

text \<open>
  The specification's reading of a filter clause, written from its words and compared
  with the builders below: each entity lists its criteria in a fixed precedence; a
  criterion that applies contributes one fragment text and one bind value; the fragments
  are kept in precedence order and fragment \<open>i\<close>, counting from 1, ends in \<open>$i\<close>.
\<close>

definition when_set :: "bool \<Rightarrow> 'a \<Rightarrow> 'a list" where
  "when_set c x = (if c then [x] else [])"

definition Job_precedence :: "obj \<Rightarrow> (string \<times> jsval) list" where
  "Job_precedence params =
     when_set (truthy (get_prop params ''title''))
       (''title ILIKE '', JStr (''%'' @ to_string (get_prop params ''title'') @ ''%'')) @
     when_set (truthy (get_prop params ''minSalary''))
       (''salary >= '', parseInt (get_prop params ''minSalary'')) @
     when_set (get_prop params ''hasEquity'' = JStr ''true'')
       (''equity > '', JStr ''0'')"

definition Company_precedence :: "obj \<Rightarrow> (string \<times> jsval) list" where
  "Company_precedence params =
     when_set (truthy (get_prop params ''minEmployees''))
       (''num_employees >= '', parseInt (get_prop params ''minEmployees'')) @
     when_set (truthy (get_prop params ''maxEmployees''))
       (''num_employees <= '', parseInt (get_prop params ''maxEmployees'')) @
     when_set (truthy (get_prop params ''name''))
       (''name ILIKE '', JStr (''%'' @ to_string (get_prop params ''name'') @ ''%''))"

definition numbered :: "string list \<Rightarrow> string list" where
  "numbered ps = map (\<lambda>(p, i). p @ ''$'' @ show_nat i) (zip ps [1..<Suc (length ps)])"

text \<open>
  The placeholders of a statement are counted by its \<open>$\<close> signs. Removing a key from
  an object gives the criteria as they would be without that criterion.
\<close>

definition placeholder_count :: "string \<Rightarrow> nat" where
  "placeholder_count s = length (filter (\<lambda>c. c = CHR ''$'') s)"

definition remove_key :: "string \<Rightarrow> obj \<Rightarrow> obj" where
  "remove_key k ob = filter (\<lambda>p. fst p \<noteq> k) ob"

section \<open>Facts about the runtime operations\<close>

lemma indexOf_from_mem: "0 \<le> i \<Longrightarrow> (indexOf_from i xs x < 0) = (x \<notin> set xs)"
  by (induction xs arbitrary: i) auto

lemma indexOf_neg: "(indexOf xs x < 0) = (x \<notin> set xs)"
  by (simp add: indexOf_def indexOf_from_mem)

lemma checkCriteria_keys_eq:
  "checkCriteria_keys criteria ks =
     (if set ks \<subseteq> set criteria then Inr ()
      else Inl (BadRequestError ''Invalid search criteria.''))"
  by (induction ks) (auto simp: indexOf_neg)

lemma get_prop_remove_key:
  "get_prop (remove_key k ob) k' = (if k' = k then JUndefined else get_prop ob k')"
  by (induction ob) (auto simp: get_prop_def remove_key_def)

lemma keys_remove_key: "set (keys (remove_key k ob)) = set (keys ob) - {k}"
  by (auto simp: keys_def remove_key_def)

lemma show_nat_small:
  "show_nat (Suc 0) = ''1''" "show_nat (Suc (Suc 0)) = ''2''"
  "show_nat (Suc (Suc (Suc 0))) = ''3''"
  "show_nat 1 = ''1''" "show_nat 2 = ''2''" "show_nat 3 = ''3''"
  by (simp_all add: show_nat.simps digit_char_def)

lemmas parse_defs = parseInt_def parseInt_string_def show_int_def is_white_def has_sign_def
  is_negative_def signed_def is_digit_def digit_of_def Let_def

lemmas build_defs = get_prop_def push_clause_def finish_def show_nat_small

lemma numbered_simps:
  "numbered [] = []"
  "numbered [a] = [a @ ''$1'']"
  "numbered [a, b] = [a @ ''$1'', b @ ''$2'']"
  "numbered [a, b, c] = [a @ ''$1'', b @ ''$2'', c @ ''$3'']"
  by (simp_all add: numbered_def upt_rec show_nat_small)

lemma length_numbered: "length (numbered ps) = length ps"
  by (simp add: numbered_def del: upt_Suc)

lemma nth_numbered: "i < length ps \<Longrightarrow> numbered ps ! i = ps ! i @ ''$'' @ show_nat (i + 1)"
  by (simp add: numbered_def nth_zip del: upt_Suc)

section \<open>The partial-update builder\<close>

lemma length_cols_from: "length (cols_from idx jsToSql ks) = length ks"
  by (induction ks arbitrary: idx) auto

lemma nth_cols_from:
  \<open>i < length ks \<Longrightarrow>
   cols_from idx jsToSql ks ! i =
     ''"'' @ column_of jsToSql (ks ! i) @ ''"=$'' @ show_nat (idx + i + 1)\<close>
proof (induction ks arbitrary: idx i)
  case Nil
  then show ?case by simp
next
  case (Cons k ks)
  show ?case
  proof (cases i)
    case 0
    then show ?thesis by simp
  next
    case (Suc j)
    with Cons.prems have "j < length ks" by simp
    from Cons.IH [OF this, of "idx + 1"] Suc show ?thesis by simp
  qed
qed

text \<open>
  Claim C1. On a payload of \<open>n > 0\<close> entries the builder succeeds; its \<open>setCols\<close> is the
  join, with a comma and a space, of \<open>n\<close> fragments, fragment \<open>i\<close> (counting from 1)
  being \<open>"column"=$i\<close> for the column of the \<open>i\<close>-th key of the payload, which is the
  field map's entry or else the key itself; its values are the \<open>n\<close> values of the
  payload in the same order, so fragment \<open>i\<close> binds value \<open>i\<close>.
\<close>

theorem sqlForPartialUpdate_fragments:
  assumes "dataToUpdate \<noteq> []"
  shows \<open>\<exists>cols. sqlForPartialUpdate dataToUpdate jsToSql =
            Inr \<lparr>setCols = join cols '', '', update_values = map snd dataToUpdate\<rparr> \<and>
          length cols = length dataToUpdate \<and>
          (\<forall>i < length dataToUpdate.
             cols ! i = ''"'' @ column_of jsToSql (fst (dataToUpdate ! i))
                          @ ''"=$'' @ show_nat (i + 1))\<close>
proof (intro exI conjI allI impI)
  show "sqlForPartialUpdate dataToUpdate jsToSql =
      Inr \<lparr>setCols = join (cols_from 0 jsToSql (keys dataToUpdate)) '', '',
           update_values = map snd dataToUpdate\<rparr>"
    using assms by (simp add: sqlForPartialUpdate_def keys_def)
  show "length (cols_from 0 jsToSql (keys dataToUpdate)) = length dataToUpdate"
    by (simp add: length_cols_from keys_def)
next
  fix i assume "i < length dataToUpdate"
  then show \<open>cols_from 0 jsToSql (keys dataToUpdate) ! i =
     ''"'' @ column_of jsToSql (fst (dataToUpdate ! i)) @ ''"=$'' @ show_nat (i + 1)\<close>
    by (simp add: nth_cols_from keys_def)
qed

text \<open>
  Claim C1 at the input of the test of helpers/sql.test.js: the payload
  \<open>{firstName: 'Aliya', age: 32}\<close> with the map to \<open>first_name\<close> and \<open>age\<close>.
\<close>

theorem sqlForPartialUpdate_fragments_witness:
  \<open>[(''firstName'', JStr ''Aliya''), (''age'', JNum 32)] \<noteq> [] \<and>
   sqlForPartialUpdate [(''firstName'', JStr ''Aliya''), (''age'', JNum 32)]
       [''firstName'' \<mapsto> ''first_name'', ''age'' \<mapsto> ''age''] =
     Inr \<lparr>setCols = ''"first_name"=$1, "age"=$2'',
          update_values = [JStr ''Aliya'', JNum 32]\<rparr>\<close>
proof -
  obtain cols where
    r: "sqlForPartialUpdate [(''firstName'', JStr ''Aliya''), (''age'', JNum 32)]
       [''firstName'' \<mapsto> ''first_name'', ''age'' \<mapsto> ''age''] =
        Inr \<lparr>setCols = join cols '', '',
             update_values = map snd [(''firstName'', JStr ''Aliya''), (''age'', JNum 32)]\<rparr>"
    and l: "length cols = length [(''firstName'', JStr ''Aliya''), (''age'', JNum 32)]"
    and n: \<open>\<forall>i < length [(''firstName'', JStr ''Aliya''), (''age'', JNum 32)].
             cols ! i = ''"'' @ column_of [''firstName'' \<mapsto> ''first_name'', ''age'' \<mapsto> ''age'']
                     (fst ([(''firstName'', JStr ''Aliya''), (''age'', JNum 32)] ! i))
                          @ ''"=$'' @ show_nat (i + 1)\<close>
    using sqlForPartialUpdate_fragments
            [of "[(''firstName'', JStr ''Aliya''), (''age'', JNum 32)]"
                "[''firstName'' \<mapsto> ''first_name'', ''age'' \<mapsto> ''age'']"]
    by blast
  from l obtain a b where c: "cols = [a, b]"
    by (cases cols; cases "tl cols"; cases "tl (tl cols)") auto
  from n [rule_format, of 0] c have a: \<open>a = ''"first_name"=$1''\<close>
    by (simp add: show_nat_small column_of_def)
  from n [rule_format, of 1] c have b: \<open>b = ''"age"=$2''\<close>
    by (simp add: show_nat_small column_of_def)
  from r a b c show ?thesis by simp
qed

text \<open>
  The map that \<open>Company.update\<close> passes has no entry for \<open>name\<close>, which falls back
  to the key.
\<close>

lemma sqlForPartialUpdate_company_example:
  \<open>sqlForPartialUpdate [(''name'', JStr ''New''), (''numEmployees'', JNum 10), (''logoUrl'', JNull)]
       [''numEmployees'' \<mapsto> ''num_employees'', ''logoUrl'' \<mapsto> ''logo_url''] =
     Inr \<lparr>setCols = ''"name"=$1, "num_employees"=$2, "logo_url"=$3'',
          update_values = [JStr ''New'', JNum 10, JNull]\<rparr>\<close>
  by (simp add: sqlForPartialUpdate_def keys_def column_of_def show_nat_small)

text \<open>
  Claim C6. Whatever the field map, the builder fails on the empty payload with a
  \<open>BadRequestError\<close>; it does not return an empty clause.
\<close>

theorem sqlForPartialUpdate_empty:
  "sqlForPartialUpdate [] jsToSql = Inl (BadRequestError []) \<and>
   is_BadRequest (sqlForPartialUpdate [] jsToSql)"
  by (simp add: sqlForPartialUpdate_def keys_def)

section \<open>Validation of filter criteria\<close>

text \<open>
  Claim C5. A criteria map with a key outside the recognised set of the entity is
  rejected with a \<open>BadRequestError\<close> by the check, and the filter stops there: it
  returns the error and hands no statement to the database.
\<close>

theorem unrecognized_key_rejected:
  "(k \<in> set (keys params) \<and> k \<notin> set Company_criteria \<longrightarrow>
      Company_checkCriteria params = Inl (BadRequestError ''Invalid search criteria.'') \<and>
      Company_filter params = Inl (BadRequestError ''Invalid search criteria.'')) \<and>
   (k \<in> set (keys params) \<and> k \<notin> set Job_criteria \<longrightarrow>
      Job_checkCriteria params = Inl (BadRequestError ''Invalid search criteria.'') \<and>
      Job_filter params = Inl (BadRequestError ''Invalid search criteria.''))"
  by (auto simp: Company_checkCriteria_def Company_filter_def Job_checkCriteria_def Job_filter_def
      checkCriteria_keys_eq Let_def)

text \<open>Claim C5 at the criteria \<open>{coffeeMachines: 2, title: "j2"}\<close> of the job model's test.\<close>

theorem unrecognized_key_rejected_witness:
  "''coffeeMachines'' \<in> set (keys [(''coffeeMachines'', JNum 2), (''title'', JStr ''j2'')]) \<and>
   ''coffeeMachines'' \<notin> set Company_criteria \<and> ''coffeeMachines'' \<notin> set Job_criteria \<and>
   Company_filter [(''coffeeMachines'', JNum 2), (''title'', JStr ''j2'')] =
     Inl (BadRequestError ''Invalid search criteria.'') \<and>
   Job_filter [(''coffeeMachines'', JNum 2), (''title'', JStr ''j2'')] =
     Inl (BadRequestError ''Invalid search criteria.'')"
  using unrecognized_key_rejected
          [of "''coffeeMachines''" "[(''coffeeMachines'', JNum 2), (''title'', JStr ''j2'')]"]
  by (simp add: keys_def Company_criteria_def Job_criteria_def)

text \<open>
  Claim C4 at the inputs where the check of the bounds goes wrong. With \<open>minEmployees\<close>
  5 and \<open>maxEmployees\<close> 0 the lower bound exceeds the upper one, and the check, whose
  comment says it checks that \<open>minEmployees < maxEmployees\<close>, returns normally: its
  guard \<open>minEmployees && maxEmployees\<close> takes the number 0 for an absent bound. Bounds
  that arrive as strings are compared as strings: \<open>"10"\<close> against \<open>"9"\<close> is let
  through, and \<open>"9"\<close> against \<open>"10"\<close> is refused.
\<close>

theorem Company_checkCriteria_misses_bounds:
  "js_gt (JNum 5) (JNum 0) \<and>
   Company_checkCriteria [(''minEmployees'', JNum 5), (''maxEmployees'', JNum 0)] = Inr () \<and>
   Company_checkCriteria [(''minEmployees'', JStr ''10''), (''maxEmployees'', JStr ''9'')] = Inr () \<and>
   Company_checkCriteria [(''minEmployees'', JStr ''9''), (''maxEmployees'', JStr ''10'')] =
     Inl (BadRequestError ''Max employees must be greater than min employees'')"
  by (simp add: Company_checkCriteria_def Company_criteria_def keys_def indexOf_def get_prop_def)

text \<open>
  The builder reads the same string bounds with \<open>parseInt\<close>, as the numbers the check
  did not compare.
\<close>

lemma Company_createSearchSqlStatement_string_bounds:
  "values_of (Company_createSearchSqlStatement
     [(''minEmployees'', JStr ''10''), (''maxEmployees'', JStr ''9'')]) = [JNum 10, JNum 9]"
  by (simp add: Company_createSearchSqlStatement_def build_defs parse_defs)

text \<open>
  Where the check of the bounds is right: with recognised keys and both bounds numbers
  other than 0, it fails exactly when \<open>minEmployees\<close> is greater than \<open>maxEmployees\<close>.
  Where it is switched off: with recognised keys and a falsy bound it returns normally.
\<close>

lemma Company_checkCriteria_bounds:
  assumes "set (keys params) \<subseteq> set Company_criteria"
    and "get_prop params ''minEmployees'' = JNum lo"
    and "get_prop params ''maxEmployees'' = JNum hi"
    and "lo \<noteq> 0" and "hi \<noteq> 0"
  shows "Company_checkCriteria params =
     (if hi < lo then Inl (BadRequestError ''Max employees must be greater than min employees'')
      else Inr ())"
  using assms by (simp add: Company_checkCriteria_def checkCriteria_keys_eq)

lemma Company_checkCriteria_bounds_examples:
  "Company_checkCriteria [(''minEmployees'', JNum 50), (''maxEmployees'', JNum 10)] =
     Inl (BadRequestError ''Max employees must be greater than min employees'')"
  "Company_checkCriteria [(''minEmployees'', JNum 10), (''maxEmployees'', JNum 50)] = Inr ()"
  using Company_checkCriteria_bounds
          [of "[(''minEmployees'', JNum 50), (''maxEmployees'', JNum 10)]" 50 10]
        Company_checkCriteria_bounds
          [of "[(''minEmployees'', JNum 10), (''maxEmployees'', JNum 50)]" 10 50]
  by (simp_all add: keys_def Company_criteria_def get_prop_def)

lemma Company_checkCriteria_falsy_bound:
  assumes "set (keys params) \<subseteq> set Company_criteria"
    and "\<not> truthy (get_prop params ''minEmployees'') \<or> \<not> truthy (get_prop params ''maxEmployees'')"
  shows "Company_checkCriteria params = Inr ()"
  using assms by (auto simp: Company_checkCriteria_def checkCriteria_keys_eq)

text \<open>
  Claim C2. For job criteria with recognised keys, the check returns normally when
  \<open>hasEquity\<close> is the literal \<open>"true"\<close> or the literal \<open>"false"\<close>, so \<open>"false"\<close> is
  neither refused nor taken for an absent flag by the check; and for every criteria map,
  a truthy \<open>hasEquity\<close> that is neither literal ends in a \<open>BadRequestError\<close>, which
  with recognised keys is the one about the flag.
\<close>

theorem Job_checkCriteria_hasEquity:
  "(set (keys params) \<subseteq> set Job_criteria \<and>
    (get_prop params ''hasEquity'' = JStr ''true'' \<or> get_prop params ''hasEquity'' = JStr ''false'')
      \<longrightarrow> Job_checkCriteria params = Inr ()) \<and>
   (truthy (get_prop params ''hasEquity'') \<and> get_prop params ''hasEquity'' \<noteq> JStr ''true'' \<and>
    get_prop params ''hasEquity'' \<noteq> JStr ''false''
      \<longrightarrow> is_BadRequest (Job_checkCriteria params) \<and>
          (set (keys params) \<subseteq> set Job_criteria \<longrightarrow>
             Job_checkCriteria params = Inl (BadRequestError ''Invalid value for has equity'')))"
  by (auto simp: Job_checkCriteria_def checkCriteria_keys_eq Let_def)

text \<open>
  Claim C2 at \<open>hasEquity\<close> \<open>"true"\<close>, \<open>"false"\<close> and \<open>"ofcourseduh"\<close>, the values of
  the tests.
\<close>

theorem Job_checkCriteria_hasEquity_witness:
  "set (keys [(''hasEquity'', JStr ''true'')]) \<subseteq> set Job_criteria \<and>
   Job_checkCriteria [(''hasEquity'', JStr ''true'')] = Inr () \<and>
   Job_checkCriteria [(''hasEquity'', JStr ''false'')] = Inr () \<and>
   truthy (get_prop [(''hasEquity'', JStr ''ofcourseduh'')] ''hasEquity'') \<and>
   Job_checkCriteria [(''hasEquity'', JStr ''ofcourseduh'')] =
     Inl (BadRequestError ''Invalid value for has equity'')"
  using Job_checkCriteria_hasEquity [of "[(''hasEquity'', JStr ''true'')]"]
        Job_checkCriteria_hasEquity [of "[(''hasEquity'', JStr ''false'')]"]
        Job_checkCriteria_hasEquity [of "[(''hasEquity'', JStr ''ofcourseduh'')]"]
  by (simp add: keys_def Job_criteria_def get_prop_def)

text \<open>
  Beside claim C2: the earlier copy of the check, which nothing exports, refuses every
  truthy \<open>hasEquity\<close>, the two literals included, since one of its two inequalities
  always holds.
\<close>

lemma Job_checkCriteria_earlier_refuses_flag:
  "Job_checkCriteria_earlier [(''hasEquity'', JStr ''true'')] =
     Inl (BadRequestError ''Invalid value for has equity'')"
  "Job_checkCriteria_earlier [(''hasEquity'', JStr ''false'')] =
     Inl (BadRequestError ''Invalid value for has equity'')"
  by (simp_all add: Job_checkCriteria_earlier_def Job_criteria_def keys_def indexOf_def
      get_prop_def)

lemma Job_checkCriteria_earlier_truthy:
  "truthy (get_prop params ''hasEquity'') \<Longrightarrow> is_BadRequest (Job_checkCriteria_earlier params)"
  by (simp add: Job_checkCriteria_earlier_def checkCriteria_keys_eq Let_def)

section \<open>Construction of filter clauses\<close>

lemma Job_clause_eq:
  "Job_createSearchSqlStatement params =
     \<lparr>statement = join (numbered (map fst (Job_precedence params))) '' AND '',
      values_of = map snd (Job_precedence params)\<rparr>"
  by (simp add: Job_createSearchSqlStatement_def Job_precedence_def when_set_def numbered_simps
      push_clause_def finish_def Let_def show_nat_small)

lemma Company_clause_eq:
  "Company_createSearchSqlStatement params =
     \<lparr>statement = join (numbered (map fst (Company_precedence params))) '' AND '',
      values_of = map snd (Company_precedence params)\<rparr>"
  by (simp add: Company_createSearchSqlStatement_def Company_precedence_def when_set_def
      numbered_simps push_clause_def finish_def Let_def show_nat_small)

lemma Job_placeholder_count:
  "placeholder_count (statement (Job_createSearchSqlStatement params)) =
     length (values_of (Job_createSearchSqlStatement params))"
  by (simp add: Job_clause_eq Job_precedence_def when_set_def numbered_simps placeholder_count_def)

lemma Company_placeholder_count:
  "placeholder_count (statement (Company_createSearchSqlStatement params)) =
     length (values_of (Company_createSearchSqlStatement params))"
  by (simp add: Company_clause_eq Company_precedence_def when_set_def numbered_simps
      placeholder_count_def)

text \<open>
  Claim C3, as stated, fails: for \<open>{minSalary: 2, title: "j2"}\<close> the bind values are
  not \<open>[2, "%j2%"]\<close>.
\<close>

theorem Job_search_values_counterexample:
  "values_of (Job_createSearchSqlStatement [(''minSalary'', JNum 2), (''title'', JStr ''j2'')])
     \<noteq> [JNum 2, JStr ''%j2%'']"
  by (simp add: Job_createSearchSqlStatement_def build_defs parse_defs)

text \<open>
  Claim C3, amended. For \<open>{minSalary: 2, title: "j2"}\<close> the builder gives the two
  fragments \<open>title ILIKE $1\<close> and \<open>salary >= $2\<close> joined by \<open>AND\<close>, and the bind
  values \<open>["%j2%", 2]\<close>: the title comes first, as in the precedence of the job
  criteria, whatever the order of the keys in the input.
\<close>

theorem Job_search_title_before_salary:
  "Job_createSearchSqlStatement [(''minSalary'', JNum 2), (''title'', JStr ''j2'')] =
     \<lparr>statement = ''title ILIKE $1 AND salary >= $2'', values_of = [JStr ''%j2%'', JNum 2]\<rparr>"
  by (simp add: Job_createSearchSqlStatement_def build_defs parse_defs)

text \<open>
  Claim C7, as stated, fails: the value bound for \<open>hasEquity\<close> at \<open>"true"\<close> is not the
  number 0; the builder pushes the string \<open>"0"\<close>.
\<close>

theorem Job_hasEquity_bind_counterexample:
  "values_of (Job_createSearchSqlStatement [(''hasEquity'', JStr ''true'')]) \<noteq> [JNum 0]"
  by (simp add: Job_createSearchSqlStatement_def build_defs)

text \<open>
  Claim C7, amended. Compared with the clause for the same criteria without
  \<open>hasEquity\<close>: at \<open>"true"\<close> the builder appends the fragment \<open>equity > $n\<close>, \<open>n\<close>
  being the next placeholder number, and the bind value that is the string \<open>"0"\<close>; at
  \<open>"false"\<close> the clause is the same as without the criterion.
\<close>

theorem Job_hasEquity_fragment:
  "(get_prop params ''hasEquity'' = JStr ''true'' \<longrightarrow>
      statement (Job_createSearchSqlStatement params) =
        (if values_of (Job_createSearchSqlStatement (remove_key ''hasEquity'' params)) = [] then []
         else statement (Job_createSearchSqlStatement (remove_key ''hasEquity'' params)) @ '' AND '')
        @ ''equity > $''
        @ show_nat (length (values_of
              (Job_createSearchSqlStatement (remove_key ''hasEquity'' params))) + 1) \<and>
      values_of (Job_createSearchSqlStatement params) =
        values_of (Job_createSearchSqlStatement (remove_key ''hasEquity'' params)) @ [JStr ''0'']) \<and>
   (get_prop params ''hasEquity'' = JStr ''false'' \<longrightarrow>
      Job_createSearchSqlStatement params =
        Job_createSearchSqlStatement (remove_key ''hasEquity'' params))"
  by (simp add: Job_clause_eq Job_precedence_def when_set_def numbered_simps get_prop_remove_key
      show_nat_small)

text \<open>
  The amended claim C7 at the query of the route test, \<open>hasEquity=true&minSalary=1\<close>,
  and at \<open>hasEquity=false&minSalary=1\<close>.
\<close>

theorem Job_hasEquity_fragment_witness:
  "get_prop [(''hasEquity'', JStr ''true''), (''minSalary'', JStr ''1'')] ''hasEquity'' = JStr ''true'' \<and>
   Job_createSearchSqlStatement [(''hasEquity'', JStr ''true''), (''minSalary'', JStr ''1'')] =
     \<lparr>statement = ''salary >= $1 AND equity > $2'', values_of = [JNum 1, JStr ''0'']\<rparr> \<and>
   get_prop [(''hasEquity'', JStr ''false''), (''minSalary'', JStr ''1'')] ''hasEquity'' = JStr ''false'' \<and>
   Job_createSearchSqlStatement [(''hasEquity'', JStr ''false''), (''minSalary'', JStr ''1'')] =
     \<lparr>statement = ''salary >= $1'', values_of = [JNum 1]\<rparr>"
proof -
  have r: "Job_createSearchSqlStatement [(''minSalary'', JStr ''1'')] =
      \<lparr>statement = ''salary >= $1'', values_of = [JNum 1]\<rparr>"
    by (simp add: Job_createSearchSqlStatement_def build_defs parse_defs)
  have k: "remove_key ''hasEquity'' [(''hasEquity'', JStr ''true''), (''minSalary'', JStr ''1'')] =
        [(''minSalary'', JStr ''1'')]"
      "remove_key ''hasEquity'' [(''hasEquity'', JStr ''false''), (''minSalary'', JStr ''1'')] =
        [(''minSalary'', JStr ''1'')]"
    by (simp_all add: remove_key_def)
  have t: "get_prop [(''hasEquity'', JStr ''true''), (''minSalary'', JStr ''1'')] ''hasEquity'' = JStr ''true''"
    and f: "get_prop [(''hasEquity'', JStr ''false''), (''minSalary'', JStr ''1'')] ''hasEquity'' = JStr ''false''"
    by (simp_all add: get_prop_def)
  from Job_hasEquity_fragment [of "[(''hasEquity'', JStr ''true''), (''minSalary'', JStr ''1'')]"] t
  have "statement (Job_createSearchSqlStatement [(''hasEquity'', JStr ''true''), (''minSalary'', JStr ''1'')])
          = ''salary >= $1 AND equity > $2''"
    and "values_of (Job_createSearchSqlStatement [(''hasEquity'', JStr ''true''), (''minSalary'', JStr ''1'')])
          = [JNum 1, JStr ''0'']"
    by (simp_all add: k r show_nat_small)
  then have a: "Job_createSearchSqlStatement [(''hasEquity'', JStr ''true''), (''minSalary'', JStr ''1'')] =
     \<lparr>statement = ''salary >= $1 AND equity > $2'', values_of = [JNum 1, JStr ''0'']\<rparr>"
    by (cases "Job_createSearchSqlStatement [(''hasEquity'', JStr ''true''), (''minSalary'', JStr ''1'')]")
       simp
  from Job_hasEquity_fragment [of "[(''hasEquity'', JStr ''false''), (''minSalary'', JStr ''1'')]"] f
  have b: "Job_createSearchSqlStatement [(''hasEquity'', JStr ''false''), (''minSalary'', JStr ''1'')] =
     \<lparr>statement = ''salary >= $1'', values_of = [JNum 1]\<rparr>"
    by (simp add: k r)
  from t f a b show ?thesis by simp
qed

text \<open>
  Beside claim C7: the earlier copy of the builder emits \<open>equity >= $n\<close> for the flag.
\<close>

lemma Job_createSearchSqlStatement_earlier_example:
  "Job_createSearchSqlStatement_earlier [(''hasEquity'', JStr ''true'')] =
     \<lparr>statement = ''equity >= $1'', values_of = [JStr ''0'']\<rparr>"
  by (simp add: Job_createSearchSqlStatement_earlier_def build_defs)

text \<open>
  Claim C8. For criteria that pass the check, the statement of either builder is the join
  with \<open>AND\<close> of as many fragments as the criteria that apply, taken in the declared
  precedence of the entity; fragment \<open>i\<close>, counting from 1, is the text of the \<open>i\<close>-th
  such criterion followed by \<open>$i\<close>; the bind values are the values of the same criteria in
  the same order; and the statement holds as many placeholders as there are bind values.
\<close>

theorem filter_clause_numbering:
  "(Job_checkCriteria jp = Inr () \<longrightarrow>
      (\<exists>frags. statement (Job_createSearchSqlStatement jp) = join frags '' AND '' \<and>
         length frags = length (Job_precedence jp) \<and>
         (\<forall>i < length frags. frags ! i = fst (Job_precedence jp ! i) @ ''$'' @ show_nat (i + 1)) \<and>
         values_of (Job_createSearchSqlStatement jp) = map snd (Job_precedence jp) \<and>
         placeholder_count (statement (Job_createSearchSqlStatement jp)) =
           length (values_of (Job_createSearchSqlStatement jp)))) \<and>
   (Company_checkCriteria cp = Inr () \<longrightarrow>
      (\<exists>frags. statement (Company_createSearchSqlStatement cp) = join frags '' AND '' \<and>
         length frags = length (Company_precedence cp) \<and>
         (\<forall>i < length frags.
            frags ! i = fst (Company_precedence cp ! i) @ ''$'' @ show_nat (i + 1)) \<and>
         values_of (Company_createSearchSqlStatement cp) = map snd (Company_precedence cp) \<and>
         placeholder_count (statement (Company_createSearchSqlStatement cp)) =
           length (values_of (Company_createSearchSqlStatement cp))))"
proof (intro conjI impI)
  show "\<exists>frags. statement (Job_createSearchSqlStatement jp) = join frags '' AND '' \<and>
         length frags = length (Job_precedence jp) \<and>
         (\<forall>i < length frags. frags ! i = fst (Job_precedence jp ! i) @ ''$'' @ show_nat (i + 1)) \<and>
         values_of (Job_createSearchSqlStatement jp) = map snd (Job_precedence jp) \<and>
         placeholder_count (statement (Job_createSearchSqlStatement jp)) =
           length (values_of (Job_createSearchSqlStatement jp))"
    by (rule exI [of _ "numbered (map fst (Job_precedence jp))"])
       (simp add: Job_placeholder_count length_numbered nth_numbered, simp add: Job_clause_eq)
  show "\<exists>frags. statement (Company_createSearchSqlStatement cp) = join frags '' AND '' \<and>
         length frags = length (Company_precedence cp) \<and>
         (\<forall>i < length frags.
            frags ! i = fst (Company_precedence cp ! i) @ ''$'' @ show_nat (i + 1)) \<and>
         values_of (Company_createSearchSqlStatement cp) = map snd (Company_precedence cp) \<and>
         placeholder_count (statement (Company_createSearchSqlStatement cp)) =
           length (values_of (Company_createSearchSqlStatement cp))"
    by (rule exI [of _ "numbered (map fst (Company_precedence cp))"])
       (simp add: Company_placeholder_count length_numbered nth_numbered,
        simp add: Company_clause_eq)
qed

text \<open>
  Claim C8 at job criteria with all three keys, given in the reverse of the precedence,
  and at company criteria with all three keys.
\<close>

theorem filter_clause_numbering_witness:
  "Job_checkCriteria
     [(''hasEquity'', JStr ''true''), (''minSalary'', JStr ''1''), (''title'', JStr ''j'')] = Inr () \<and>
   Company_checkCriteria
     [(''name'', JStr ''net''), (''maxEmployees'', JNum 30), (''minEmployees'', JNum 1)] = Inr () \<and>
   values_of (Job_createSearchSqlStatement
     [(''hasEquity'', JStr ''true''), (''minSalary'', JStr ''1''), (''title'', JStr ''j'')]) =
     [JStr ''%j%'', JNum 1, JStr ''0''] \<and>
   placeholder_count (statement (Job_createSearchSqlStatement
     [(''hasEquity'', JStr ''true''), (''minSalary'', JStr ''1''), (''title'', JStr ''j'')])) = 3 \<and>
   values_of (Company_createSearchSqlStatement
     [(''name'', JStr ''net''), (''maxEmployees'', JNum 30), (''minEmployees'', JNum 1)]) =
     [JNum 1, JNum 30, JStr ''%net%''] \<and>
   placeholder_count (statement (Company_createSearchSqlStatement
     [(''name'', JStr ''net''), (''maxEmployees'', JNum 30), (''minEmployees'', JNum 1)])) = 3"
proof -
  have j: "Job_checkCriteria
     [(''hasEquity'', JStr ''true''), (''minSalary'', JStr ''1''), (''title'', JStr ''j'')] = Inr ()"
    by (simp add: Job_checkCriteria_def Job_criteria_def keys_def indexOf_def get_prop_def)
  have c: "Company_checkCriteria
     [(''name'', JStr ''net''), (''maxEmployees'', JNum 30), (''minEmployees'', JNum 1)] = Inr ()"
    by (simp add: Company_checkCriteria_def Company_criteria_def keys_def indexOf_def get_prop_def)
  have pj: "Job_precedence
     [(''hasEquity'', JStr ''true''), (''minSalary'', JStr ''1''), (''title'', JStr ''j'')] =
     [(''title ILIKE '', JStr ''%j%''), (''salary >= '', JNum 1), (''equity > '', JStr ''0'')]"
    by (simp add: Job_precedence_def when_set_def get_prop_def parse_defs)
  have pc: "Company_precedence
     [(''name'', JStr ''net''), (''maxEmployees'', JNum 30), (''minEmployees'', JNum 1)] =
     [(''num_employees >= '', JNum 1), (''num_employees <= '', JNum 30),
      (''name ILIKE '', JStr ''%net%'')]"
    by (simp add: Company_precedence_def when_set_def get_prop_def parse_defs show_nat.simps
        digit_char_def)
  from filter_clause_numbering
         [of "[(''hasEquity'', JStr ''true''), (''minSalary'', JStr ''1''), (''title'', JStr ''j'')]"
             "[(''name'', JStr ''net''), (''maxEmployees'', JNum 30), (''minEmployees'', JNum 1)]"]
       j c
  show ?thesis by (auto simp: pj pc)
qed

text \<open>
  A recognised company criterion whose value is falsy leaves both the check and the
  builder as they are without the key.
\<close>

lemma Company_falsy_create:
  "k \<in> set Company_criteria \<Longrightarrow> \<not> truthy (get_prop params k) \<Longrightarrow>
   Company_createSearchSqlStatement (remove_key k params) = Company_createSearchSqlStatement params"
  by (auto simp: Company_criteria_def Company_createSearchSqlStatement_def get_prop_remove_key
      Let_def)

lemma Company_falsy_check:
  assumes k: "k \<in> set Company_criteria" and f: "\<not> truthy (get_prop params k)"
  shows "Company_checkCriteria (remove_key k params) = Company_checkCriteria params"
proof -
  from k have "(set (keys (remove_key k params)) \<subseteq> set Company_criteria)
      = (set (keys params) \<subseteq> set Company_criteria)"
    by (auto simp: keys_remove_key)
  with k f show ?thesis
    by (auto simp: Company_criteria_def Company_checkCriteria_def checkCriteria_keys_eq
        get_prop_remove_key Let_def)
qed

text \<open>
  Claim C10. In company criteria, a recognised key with a falsy value (the number 0, the
  empty string) changes neither the outcome of the check nor the clause: both are what
  they are without the key. With \<open>minEmployees\<close> 0 the comparison of the bounds is not
  reached, so \<open>{minEmployees: 0, maxEmployees: m}\<close> passes the check for every \<open>m\<close>.
  When every key is recognised and every criterion is falsy, the clause is empty and the
  filter still sends its query, with nothing after \<open>WHERE\<close> but the closing white space
  of the template.
\<close>

theorem Company_falsy_criteria:
  "(k \<in> set Company_criteria \<and> \<not> truthy (get_prop params k) \<longrightarrow>
      Company_checkCriteria params = Company_checkCriteria (remove_key k params) \<and>
      Company_createSearchSqlStatement params =
        Company_createSearchSqlStatement (remove_key k params)) \<and>
   Company_checkCriteria [(''minEmployees'', JNum 0), (''maxEmployees'', m)] = Inr () \<and>
   (set (keys params) \<subseteq> set Company_criteria \<and>
    (\<forall>c \<in> set Company_criteria. \<not> truthy (get_prop params c)) \<longrightarrow>
      Company_createSearchSqlStatement params = \<lparr>statement = [], values_of = []\<rparr> \<and>
      Company_filter params =
        Inr \<lparr>querySql = Company_filter_prefix @ Company_filter_suffix, binds = []\<rparr>)"
proof (intro conjI impI)
  assume "k \<in> set Company_criteria \<and> \<not> truthy (get_prop params k)"
  then show "Company_checkCriteria params = Company_checkCriteria (remove_key k params)"
    and "Company_createSearchSqlStatement params =
           Company_createSearchSqlStatement (remove_key k params)"
    by (simp_all add: Company_falsy_check Company_falsy_create)
next
  show "Company_checkCriteria [(''minEmployees'', JNum 0), (''maxEmployees'', m)] = Inr ()"
    by (simp add: Company_checkCriteria_def Company_criteria_def keys_def indexOf_def get_prop_def)
next
  assume a: "set (keys params) \<subseteq> set Company_criteria \<and>
    (\<forall>c \<in> set Company_criteria. \<not> truthy (get_prop params c))"
  then show c: "Company_createSearchSqlStatement params = \<lparr>statement = [], values_of = []\<rparr>"
    by (simp add: Company_criteria_def Company_createSearchSqlStatement_def finish_def)
  from a have "Company_checkCriteria params = Inr ()"
    by (simp add: Company_checkCriteria_def checkCriteria_keys_eq Company_criteria_def)
  with c show "Company_filter params =
        Inr \<lparr>querySql = Company_filter_prefix @ Company_filter_suffix, binds = []\<rparr>"
    by (simp add: Company_filter_def)
qed

text \<open>
  Claim C10 at \<open>{minEmployees: 0, name: ""}\<close>, at the same criteria with
  \<open>maxEmployees\<close> 7 added, and at \<open>{minEmployees: 0, maxEmployees: -1}\<close>.
\<close>

theorem Company_falsy_criteria_witness:
  "''minEmployees'' \<in> set Company_criteria \<and>
   \<not> truthy (get_prop [(''minEmployees'', JNum 0), (''name'', JStr []), (''maxEmployees'', JNum 7)]
                ''minEmployees'') \<and>
   Company_createSearchSqlStatement
       [(''minEmployees'', JNum 0), (''name'', JStr []), (''maxEmployees'', JNum 7)] =
     \<lparr>statement = ''num_employees <= $1'', values_of = [JNum 7]\<rparr> \<and>
   Company_checkCriteria [(''minEmployees'', JNum 0), (''maxEmployees'', JNum (- 1))] = Inr () \<and>
   set (keys [(''minEmployees'', JNum 0), (''name'', JStr [])]) \<subseteq> set Company_criteria \<and>
   \<not> truthy (get_prop [(''minEmployees'', JNum 0), (''name'', JStr [])] ''name'') \<and>
   \<not> truthy (get_prop [(''minEmployees'', JNum 0), (''name'', JStr [])] ''minEmployees'') \<and>
   \<not> truthy (get_prop [(''minEmployees'', JNum 0), (''name'', JStr [])] ''maxEmployees'') \<and>
   Company_filter [(''minEmployees'', JNum 0), (''name'', JStr [])] =
     Inr \<lparr>querySql = Company_filter_prefix @ Company_filter_suffix, binds = []\<rparr>"
proof -
  have r: "remove_key ''minEmployees''
       [(''minEmployees'', JNum 0), (''name'', JStr []), (''maxEmployees'', JNum 7)] =
       [(''name'', JStr []), (''maxEmployees'', JNum 7)]"
    by (simp add: remove_key_def)
  have s: "Company_createSearchSqlStatement [(''name'', JStr []), (''maxEmployees'', JNum 7)] =
     \<lparr>statement = ''num_employees <= $1'', values_of = [JNum 7]\<rparr>"
    by (simp add: Company_createSearchSqlStatement_def build_defs parse_defs show_nat.simps
        digit_char_def)
  from Company_falsy_criteria
         [of "''minEmployees''"
             "[(''minEmployees'', JNum 0), (''name'', JStr []), (''maxEmployees'', JNum 7)]"
             "JNum (- 1)"]
  have a: "Company_createSearchSqlStatement
       [(''minEmployees'', JNum 0), (''name'', JStr []), (''maxEmployees'', JNum 7)] =
     \<lparr>statement = ''num_employees <= $1'', values_of = [JNum 7]\<rparr>"
    and b: "Company_checkCriteria [(''minEmployees'', JNum 0), (''maxEmployees'', JNum (- 1))] = Inr ()"
    by (simp_all add: r s Company_criteria_def get_prop_def)
  from Company_falsy_criteria
         [of "''minEmployees''" "[(''minEmployees'', JNum 0), (''name'', JStr [])]" "JNum (- 1)"]
  have c: "Company_filter [(''minEmployees'', JNum 0), (''name'', JStr [])] =
     Inr \<lparr>querySql = Company_filter_prefix @ Company_filter_suffix, binds = []\<rparr>"
    by (simp add: Company_criteria_def get_prop_def keys_def)
  from a b c show ?thesis
    by (simp add: Company_criteria_def get_prop_def keys_def)
qed

section \<open>Updating an application\<close>

text \<open>
  Claim C9. When the table holds a row for the user and the job, the call sets the
  \<open>current_state\<close> of every row of the table to the new state, whatever its user and
  job, and returns the first row of the table so updated, which need not be the row
  asked for.
\<close>

theorem updateJobApplication_rewrites_every_row:
  assumes "\<exists>r \<in> set db. username r = u \<and> job_id r = j"
  shows "User_updateJobApplication db u j newState =
           (Inr (Some ((hd db)\<lparr>current_state := newState\<rparr>)),
            map (\<lambda>r. r\<lparr>current_state := newState\<rparr>) db) \<and>
         (\<forall>r \<in> set (snd (User_updateJobApplication db u j newState)).
            current_state r = newState)"
proof -
  from assms have sel: "select_application db u j \<noteq> []"
    by (auto simp: select_application_def filter_empty_conv)
  from assms have ne: "db \<noteq> []" by auto
  from sel ne show ?thesis
    by (cases db; cases "select_application db u j")
       (auto simp: User_updateJobApplication_def update_current_state_def Let_def)
qed

text \<open>
  Claim C9 on a table of two applications: updating the application of \<open>u2\<close> for job 2
  also rewrites the application of \<open>u1\<close> for job 1, and it is that row which is returned.
\<close>

theorem updateJobApplication_rewrites_every_row_witness:
  "username \<lparr>username = ''u2'', job_id = 2, current_state = ''interested''\<rparr> = ''u2'' \<and>
   job_id \<lparr>username = ''u2'', job_id = 2, current_state = ''interested''\<rparr> = 2 \<and>
   User_updateJobApplication
     [\<lparr>username = ''u1'', job_id = 1, current_state = ''applied''\<rparr>,
      \<lparr>username = ''u2'', job_id = 2, current_state = ''interested''\<rparr>] ''u2'' 2 ''accepted'' =
     (Inr (Some \<lparr>username = ''u1'', job_id = 1, current_state = ''accepted''\<rparr>),
      [\<lparr>username = ''u1'', job_id = 1, current_state = ''accepted''\<rparr>,
       \<lparr>username = ''u2'', job_id = 2, current_state = ''accepted''\<rparr>])"
  using updateJobApplication_rewrites_every_row
          [of "[\<lparr>username = ''u1'', job_id = 1, current_state = ''applied''\<rparr>,
                \<lparr>username = ''u2'', job_id = 2, current_state = ''interested''\<rparr>]"
              "''u2''" 2 "''accepted''"]
  by simp

text \<open>Without a row for the user and the job the call fails and the table is untouched.\<close>

lemma updateJobApplication_not_found:
  "\<not> (\<exists>r \<in> set db. username r = u \<and> job_id r = j) \<Longrightarrow>
   User_updateJobApplication db u j newState = (Inl (NotFoundError ''Application not found''), db)"
  by (simp add: User_updateJobApplication_def select_application_def filter_empty_conv)

end
